theory Spec2Isabelle
  imports Main
begin

section \<open>JavaScript values used by the theme picker\<close>

text \<open>
  The theme picker of \<^verbatim>\<open>app/scripts/common/themes/themePicker.js\<close> reads attributes of
  the page body and elements of the theme catalog. Both reads may yield \<^verbatim>\<open>undefined\<close>
  (an absent attribute, an index outside the array), so the values it handles are
  either a string or \<^verbatim>\<open>undefined\<close>.
\<close>

datatype jsval = Undefined | Str string

fun toString :: "jsval \<Rightarrow> string" where
  "toString Undefined = ''undefined''"
| "toString (Str s) = s"

datatype error = TypeError

text \<open>
  An entry of \<^verbatim>\<open>themeOptions.json\<close>. The file is not among the sources covered here: the
  catalog is a parameter of every function below. The code reads only the field
  \<^verbatim>\<open>value\<close> of an entry.
\<close>

record themeOption =
  opt_value :: string

text \<open>\<^verbatim>\<open>_.pluck(themeOptions, 'value')\<close>\<close>

definition pluck_value :: "themeOption list \<Rightarrow> string list" where
  "pluck_value themeOptions = map opt_value themeOptions"

text \<open>
  \<^verbatim>\<open>Array.prototype.indexOf\<close>: the first index holding a value strictly equal to the
  one searched, \<open>-1\<close> when there is none.
\<close>

fun indexOf :: "'a list \<Rightarrow> 'a \<Rightarrow> int" where
  "indexOf [] x = -1"
| "indexOf (y # ys) x =
     (if y = x then 0
      else (let i = indexOf ys x in if i < 0 then -1 else i + 1))"

text \<open>
  The remainder operator \<^verbatim>\<open>%\<close> on integer operands: the result has the sign of the
  dividend, and a zero divisor gives \<^verbatim>\<open>NaN\<close> (here \<open>None\<close>).
\<close>

definition js_rem :: "int \<Rightarrow> int \<Rightarrow> int option" where
  "js_rem a b = (if b = 0 then None else Some (sgn a * (\<bar>a\<bar> mod \<bar>b\<bar>)))"

text \<open>
  Reading \<^verbatim>\<open>xs[i]\<close>: the element when the index is inside the array, \<^verbatim>\<open>undefined\<close>
  (\<open>None\<close>) otherwise, also for \<^verbatim>\<open>NaN\<close>.
\<close>

definition js_index :: "'a list \<Rightarrow> int option \<Rightarrow> 'a option" where
  "js_index xs i =
     (case i of
        None \<Rightarrow> None
      | Some j \<Rightarrow> (if 0 \<le> j \<and> j < int (length xs) then Some (xs ! nat j) else None))"

section \<open>The page state the theme picker works on\<close>

text \<open>
  \<^item> \<open>body_attr\<close>: the attributes of \<^verbatim>\<open>$('body')\<close> (\<^verbatim>\<open>data-theme\<close>, \<^verbatim>\<open>data-mode\<close>);
  \<^item> \<open>body_class\<close>: its class list;
  \<^item> \<open>localforage\<close>: the persistent key-value store;
  \<^item> \<open>theme_options_el\<close>: the value of the select \<^verbatim>\<open>#theme-options\<close>, \<open>None\<close> when the
    element is not on the page;
  \<^item> \<open>mode_radios_el\<close>: the values checked in the radio group \<^verbatim>\<open>mode-radios\<close>, \<open>None\<close>
    when the group is not on the page;
  \<^item> \<open>mode_href\<close>: the \<^verbatim>\<open>href\<close> of the stylesheet link \<^verbatim>\<open>#mode\<close>, \<open>None\<close> when the
    link is not on the page.
\<close>

record page =
  body_attr :: "string \<rightharpoonup> string"
  body_class :: "string list"
  localforage :: "string \<rightharpoonup> jsval"
  theme_options_el :: "jsval option"
  mode_radios_el :: "string list option"
  mode_href :: "string option"

text \<open>\<^verbatim>\<open>$body.attr(name)\<close>: the attribute, \<^verbatim>\<open>undefined\<close> when it is absent.\<close>

definition attr_get :: "page \<Rightarrow> string \<Rightarrow> jsval" where
  "attr_get p name = (case body_attr p name of None \<Rightarrow> Undefined | Some s \<Rightarrow> Str s)"

text \<open>
  \<^verbatim>\<open>$body.attr(name, value)\<close>: jQuery sets the attribute, and takes an \<^verbatim>\<open>undefined\<close>
  value for a read, which changes nothing.
\<close>

definition attr_set :: "string \<Rightarrow> jsval \<Rightarrow> page \<Rightarrow> page" where
  "attr_set name v p =
     (case v of
        Undefined \<Rightarrow> p
      | Str s \<Rightarrow> p\<lparr>body_attr := (body_attr p)(name \<mapsto> s)\<rparr>)"

text \<open>\<^verbatim>\<open>$body.addClass(c)\<close>: appends the class unless the body has it.\<close>

definition addClass :: "string \<Rightarrow> page \<Rightarrow> page" where
  "addClass c p = (if c \<in> set (body_class p) then p else p\<lparr>body_class := body_class p @ [c]\<rparr>)"

section \<open>themePicker.js\<close>

text \<open>
  \<^verbatim>\<open>updateAppearance(property, value)\<close>: persists the value, writes the body attribute
  \<^verbatim>\<open>data-<property>\<close>, and rebuilds the body classes from the attributes
  \<^verbatim>\<open>data-mode\<close> and \<^verbatim>\<open>data-theme\<close>, in this order.
\<close>

definition updateAppearance :: "string \<Rightarrow> jsval \<Rightarrow> page \<Rightarrow> page" where
  "updateAppearance property v p =
     (let p1 = p\<lparr>localforage := (localforage p)(property \<mapsto> v)\<rparr>;
          p2 = attr_set (''data-'' @ property) v p1;
          p3 = p2\<lparr>body_class := []\<rparr>
      in foldl (\<lambda>q prop. addClass (prop @ ''-'' @ toString (attr_get q (''data-'' @ prop))) q)
           p3 [''mode'', ''theme''])"

text \<open>
  \<^verbatim>\<open>applyTheme(newTheme)\<close>: sets the select \<^verbatim>\<open>#theme-options\<close> when it is on the page,
  then updates the appearance. There is no other branch.
\<close>

definition applyTheme :: "jsval \<Rightarrow> page \<Rightarrow> page" where
  "applyTheme newTheme p =
     (let p1 = (case theme_options_el p of
                  None \<Rightarrow> p
                | Some _ \<Rightarrow> p\<lparr>theme_options_el := Some newTheme\<rparr>)
      in updateAppearance ''theme'' newTheme p1)"

text \<open>
  \<^verbatim>\<open>selectNextTheme(direction)\<close>. The direction \<^verbatim>\<open>'Left'\<close> steps back, every other
  value steps forward. \<^verbatim>\<open>themeOptions[newIndex].value\<close> throws a \<^verbatim>\<open>TypeError\<close> when
  the index is outside the catalog.
\<close>

definition selectNextTheme :: "themeOption list \<Rightarrow> string \<Rightarrow> page \<Rightarrow> error + page" where
  "selectNextTheme themeOptions direction p =
     (let allThemes = pluck_value themeOptions;
          currentTheme = attr_get p ''data-theme'';
          newIndex = indexOf (map Str allThemes) currentTheme
                       + (if direction = ''Left'' then -1 else 1);
          newIndex' = js_rem (newIndex + int (length allThemes)) (int (length allThemes))
      in case js_index themeOptions newIndex' of
           None \<Rightarrow> Inl TypeError
         | Some opt \<Rightarrow> Inr (applyTheme (Str (opt_value opt)) p))"

text \<open>
  \<^verbatim>\<open>toggleMode()\<close>: the new mode is \<^verbatim>\<open>'slate'\<close> when the body's \<^verbatim>\<open>data-mode\<close> is
  \<^verbatim>\<open>'default'\<close>, and \<^verbatim>\<open>'default'\<close> in every other case.
\<close>

definition toggleMode :: "page \<Rightarrow> page" where
  "toggleMode p =
     (let newMode = (if attr_get p ''data-mode'' = Str ''default'' then ''slate'' else ''default'');
          p1 = (case mode_radios_el p of
                  None \<Rightarrow> p
                | Some _ \<Rightarrow> p\<lparr>mode_radios_el := Some [newMode]\<rparr>);
          cssFile = (if newMode \<noteq> ''default'' then ''/styles/'' @ newMode @ ''.min.css'' else '''');
          p2 = (case mode_href p1 of
                  None \<Rightarrow> p1
                | Some _ \<Rightarrow> p1\<lparr>mode_href := Some cssFile\<rparr>)
      in updateAppearance ''mode'' (Str newMode) p2)"

text \<open>
  The loop of \<^verbatim>\<open>selectRandomTheme()\<close>:
  \<^verbatim>\<open>do { newTheme = allThemes[Math.floor(Math.random() * allThemes.length)]; }
  while (newTheme === currentTheme);\<close>
  The random source is the sequence \<open>rnd\<close> of the indices drawn, \<open>rnd k\<close> being the value
  of \<^verbatim>\<open>Math.floor(Math.random() * allThemes.length)\<close> in iteration \<open>k\<close>. The loop need not
  end: the result is \<open>None\<close> when it never leaves.
\<close>

definition draw :: "string list \<Rightarrow> nat \<Rightarrow> jsval" where
  "draw allThemes i = (if i < length allThemes then Str (allThemes ! i) else Undefined)"

partial_function (option) randomLoop ::
    "string list \<Rightarrow> jsval \<Rightarrow> (nat \<Rightarrow> nat) \<Rightarrow> nat \<Rightarrow> jsval option" where
  "randomLoop allThemes currentTheme rnd k =
     (let newTheme = draw allThemes (rnd k)
      in if newTheme = currentTheme then randomLoop allThemes currentTheme rnd (Suc k)
         else Some newTheme)"

definition selectRandomTheme :: "themeOption list \<Rightarrow> (nat \<Rightarrow> nat) \<Rightarrow> page \<Rightarrow> page option" where
  "selectRandomTheme themeOptions rnd p =
     (let allThemes = pluck_value themeOptions;
          currentTheme = attr_get p ''data-theme''
      in case randomLoop allThemes currentTheme rnd 0 of
           None \<Rightarrow> None
         | Some newTheme \<Rightarrow> Some (applyTheme newTheme p))"


text \<open>Pages, catalogs and random draws used in the worked examples below.\<close>

definition page0 :: page where
  "page0 = \<lparr>body_attr = Map.empty, body_class = [], localforage = Map.empty,
             theme_options_el = None, mode_radios_el = None, mode_href = None\<rparr>"

definition pageWith :: "string \<Rightarrow> page" where
  "pageWith t = page0\<lparr>body_attr := [''data-theme'' \<mapsto> t]\<rparr>"

definition catalogABC :: "themeOption list" where
  "catalogABC = [\<lparr>opt_value = ''A''\<rparr>, \<lparr>opt_value = ''B''\<rparr>, \<lparr>opt_value = ''C''\<rparr>]"

definition catalogAAB :: "themeOption list" where
  "catalogAAB = [\<lparr>opt_value = ''A''\<rparr>, \<lparr>opt_value = ''A''\<rparr>, \<lparr>opt_value = ''B''\<rparr>]"


text \<open>
  Two calls in a row (an exception of the first ends the sequence), and the theme the
  body carries after a call.
\<close>

definition andThen :: "error + page \<Rightarrow> (page \<Rightarrow> error + page) \<Rightarrow> error + page" where
  "andThen r f = (case r of Inl e \<Rightarrow> Inl e | Inr p \<Rightarrow> f p)"

definition themeAfter :: "error + page \<Rightarrow> error + jsval" where
  "themeAfter r = map_sum id (\<lambda>p. attr_get p ''data-theme'') r"

section \<open>KeyboardShortcuts.tsx\<close>

datatype Section = Appearance | Navigation | Timetable

text \<open>\<^verbatim>\<open>type Shortcut = string | string[]\<close>\<close>

datatype Shortcut = Single string | Alternatives "string list"

record KeyBinding =
  kb_key :: Shortcut
  kb_section :: Section
  kb_description :: string

datatype ColorScheme = Light | Dark

text \<open>
  The callbacks the component hands to Mousetrap, each with the values its closure
  captures: the route pushed, the new visibility of the help dialog
  (\<^verbatim>\<open>!helpShown\<close>), the colour scheme inverted, the step of \<^verbatim>\<open>cycleTheme\<close>.
\<close>

datatype Action =
    HistoryPush string
  | FocusGlobalSearch
  | SetHelpShown bool
  | ToggleTimetableOrientation
  | OpenDownloadMenu
  | ToggleNightMode ColorScheme
  | CycleTheme int

subsection \<open>Mousetrap\<close>

text \<open>
  Mousetrap is a library the component calls; it is one table for the whole page, from
  key patterns to callbacks. \<^verbatim>\<open>Mousetrap.bind(keys, callback)\<close> takes one pattern or an
  array of patterns and installs the callback for each, in place of a callback already
  there; \<^verbatim>\<open>Mousetrap.unbind(keys)\<close> takes the callback of each pattern away;
  \<^verbatim>\<open>Mousetrap.trigger(keys)\<close> is what a completed key pattern does: it invokes the
  callback the table holds for it, if any.
\<close>

fun patterns :: "Shortcut \<Rightarrow> string list" where
  "patterns (Single k) = [k]"
| "patterns (Alternatives ks) = ks"

definition Mousetrap_bind ::
    "Shortcut \<Rightarrow> Action \<Rightarrow> (string \<rightharpoonup> Action) \<Rightarrow> (string \<rightharpoonup> Action)" where
  "Mousetrap_bind keys callback table = foldl (\<lambda>t k. t(k \<mapsto> callback)) table (patterns keys)"

definition Mousetrap_unbind :: "Shortcut \<Rightarrow> (string \<rightharpoonup> Action) \<Rightarrow> (string \<rightharpoonup> Action)" where
  "Mousetrap_unbind keys table = foldl (\<lambda>t k. t(k := None)) table (patterns keys)"

definition Mousetrap_trigger :: "(string \<rightharpoonup> Action) \<Rightarrow> string \<Rightarrow> Action option" where
  "Mousetrap_trigger table k = table k"

subsection \<open>The effect of the component and its cleanup\<close>

text \<open>
  \<open>mousetrap\<close> is the table of the page, \<open>shortcuts\<close> is \<^verbatim>\<open>shortcuts.current\<close>, the list
  the component keeps of what it has bound.
\<close>

record component =
  mousetrap :: "string \<rightharpoonup> Action"
  shortcuts :: "KeyBinding list"

text \<open>
  \<^verbatim>\<open>bind(key, section, description, action)\<close>: records the binding, then binds the key.
  It has no other statement: no check, no exception.
\<close>

definition bind :: "Shortcut \<Rightarrow> Section \<Rightarrow> string \<Rightarrow> Action \<Rightarrow> component \<Rightarrow> component" where
  "bind k sec description action s =
     s\<lparr>shortcuts := shortcuts s @ [\<lparr>kb_key = k, kb_section = sec, kb_description = description\<rparr>],
       mousetrap := Mousetrap_bind k action (mousetrap s)\<rparr>"

definition easterEgg :: string where
  "easterEgg = ''up up down down left right left right b a''"

text \<open>
  The body of \<^verbatim>\<open>useEffect\<close>: twelve calls of \<^verbatim>\<open>bind\<close>, then one call of
  \<^verbatim>\<open>Mousetrap.bind\<close> itself for the ten-key sequence.
\<close>

definition effect :: "bool \<Rightarrow> ColorScheme \<Rightarrow> component \<Rightarrow> component" where
  "effect helpShown colorScheme s =
     (let s = bind (Single ''y'') Navigation ''Go to today'' (HistoryPush ''/today'') s;
          s = bind (Single ''t'') Navigation ''Go to timetable'' (HistoryPush ''/timetable'') s;
          s = bind (Single ''m'') Navigation ''Go to course finder'' (HistoryPush ''/courses'') s;
          s = bind (Single ''v'') Navigation ''Go to venues page'' (HistoryPush ''/venues'') s;
          s = bind (Single ''s'') Navigation ''Go to settings'' (HistoryPush ''/settings'') s;
          s = bind (Single ''/'') Navigation ''Open global search'' FocusGlobalSearch s;
          s = bind (Single ''?'') Navigation ''Show this help'' (SetHelpShown (\<not> helpShown)) s;
          s = bind (Single ''o'') Timetable ''Switch timetable orientation''
                ToggleTimetableOrientation s;
          s = bind (Single ''d'') Timetable ''Open download timetable menu'' OpenDownloadMenu s;
          s = bind (Single ''x'') Appearance ''Toggle Night Mode'' (ToggleNightMode colorScheme) s;
          s = bind (Single ''z'') Appearance ''Previous Theme'' (CycleTheme (-1)) s;
          s = bind (Single ''c'') Appearance ''Next Theme'' (CycleTheme 1) s
      in s\<lparr>mousetrap := Mousetrap_bind (Single easterEgg) (HistoryPush ''/tetris'') (mousetrap s)\<rparr>)"

text \<open>
  The function the effect returns:
  \<^verbatim>\<open>shortcuts.current.forEach(({ key }) => Mousetrap.unbind(key)); shortcuts.current = [];\<close>
\<close>

definition cleanup :: "component \<Rightarrow> component" where
  "cleanup s =
     s\<lparr>mousetrap := foldl (\<lambda>t b. Mousetrap_unbind (kb_key b) t) (mousetrap s) (shortcuts s),
       shortcuts := []\<rparr>"

text \<open>The key patterns of a list of recorded bindings.\<close>

definition registered :: "KeyBinding list \<Rightarrow> string list" where
  "registered bs = concat (map (\<lambda>b. patterns (kb_key b)) bs)"


subsection \<open>The sections of the help dialog\<close>

text \<open>
  \<^verbatim>\<open>groupBy(collection, iteratee)\<close> of lodash builds an object: each element is pushed
  to the array under its key, and a key not yet in the object is added with a
  one-element array. The keys here are the section names, which an object keeps in the
  order they were added; the object is the list of its entries in that order.
\<close>

fun groupBy_add :: "('k \<times> 'a list) list \<Rightarrow> 'k \<Rightarrow> 'a \<Rightarrow> ('k \<times> 'a list) list" where
  "groupBy_add [] k v = [(k, [v])]"
| "groupBy_add ((k', vs) # rest) k v =
     (if k' = k then (k', vs @ [v]) # rest else (k', vs) # groupBy_add rest k v)"

definition groupBy :: "'a list \<Rightarrow> ('a \<Rightarrow> 'k) \<Rightarrow> ('k \<times> 'a list) list" where
  "groupBy collection iteratee =
     foldl (\<lambda>result v. groupBy_add result (iteratee v) v) [] collection"

text \<open>\<^verbatim>\<open>const sections = groupBy(shortcuts.current, (shortcut) => shortcut.section);\<close>\<close>

definition sections :: "component \<Rightarrow> (Section \<times> KeyBinding list) list" where
  "sections s = groupBy (shortcuts s) kb_section"

text \<open>The keys of a list in the order of their first occurrence, each once.\<close>

definition firstSeen :: "'k list \<Rightarrow> 'k list" where
  "firstSeen ks = rev (remdups (rev ks))"

subsection \<open>Rendering a shortcut\<close>

text \<open>
  The character classes of the regular expression \<^verbatim>\<open>/\b([a-z])/\<close>: \<^verbatim>\<open>[a-z]\<close>, and the
  word characters \<^verbatim>\<open>[A-Za-z0-9_]\<close> that decide where \<^verbatim>\<open>\b\<close> holds.
\<close>

definition is_lower :: "char \<Rightarrow> bool" where
  "is_lower c = (97 \<le> (of_char c :: nat) \<and> (of_char c :: nat) \<le> 122)"

definition is_upper :: "char \<Rightarrow> bool" where
  "is_upper c = (65 \<le> (of_char c :: nat) \<and> (of_char c :: nat) \<le> 90)"

definition is_digit :: "char \<Rightarrow> bool" where
  "is_digit c = (48 \<le> (of_char c :: nat) \<and> (of_char c :: nat) \<le> 57)"

definition is_word :: "char \<Rightarrow> bool" where
  "is_word c = (is_lower c \<or> is_upper c \<or> is_digit c \<or> c = CHR ''_'')"

text \<open>
  \<^verbatim>\<open>c.toUpperCase()\<close> on the one character the expression matched, a letter of
  \<^verbatim>\<open>[a-z]\<close>: the capital is the same code with bit 5 cleared (32 less).
\<close>

definition toUpperCase :: "char \<Rightarrow> char" where
  "toUpperCase c =
     (if is_lower c
      then (case c of Char b0 b1 b2 b3 b4 b5 b6 b7 \<Rightarrow> Char b0 b1 b2 b3 b4 False b6 b7)
      else c)"

text \<open>
  \<^verbatim>\<open>shortcut.replace(/\b([a-z])/, (c) => c.toUpperCase())\<close>: the expression has no
  \<^verbatim>\<open>g\<close> flag, so only the leftmost match is replaced. A match is a letter of
  \<^verbatim>\<open>[a-z]\<close> with no word character right before it. \<open>afterWord\<close> tells whether the
  character before the rest of the string is a word character.
\<close>

fun replaceFirst :: "bool \<Rightarrow> string \<Rightarrow> string" where
  "replaceFirst afterWord [] = []"
| "replaceFirst afterWord (c # cs) =
     (if \<not> afterWord \<and> is_lower c then toUpperCase c # cs
      else c # replaceFirst (is_word c) cs)"

definition capitalize :: "string \<Rightarrow> string" where
  "capitalize shortcut = replaceFirst False shortcut"

text \<open>
  What \<^verbatim>\<open>renderShortcut\<close> returns: \<^verbatim>\<open><kbd key={shortcut}>{capitalized}</kbd>\<close>, a
  piece of text, or an array of nodes.
\<close>

datatype ReactNode = Kbd string string | Text string | Nodes "ReactNode list"

text \<open>
  Modelled from the spec: \<^verbatim>\<open>intersperse\<close> of \<^verbatim>\<open>utils/array\<close> is not among the sources
  covered here. The specification has an alternatives list rendered as its members joined with
  the delimiter: the delimiter stands between each two neighbours, and nowhere else.
\<close>

fun intersperse :: "'a list \<Rightarrow> 'a \<Rightarrow> 'a list" where
  "intersperse [] delimiter = []"
| "intersperse [x] delimiter = [x]"
| "intersperse (x # y # rest) delimiter = x # delimiter # intersperse (y # rest) delimiter"

function renderShortcut :: "Shortcut \<Rightarrow> ReactNode" where
  "renderShortcut (Single shortcut) = Kbd shortcut (capitalize shortcut)"
| "renderShortcut (Alternatives shortcut) =
     Nodes (intersperse (map (\<lambda>k. renderShortcut (Single k)) shortcut) (Text '' or ''))"
  by pat_completeness auto
termination
  by (relation "measure (\<lambda>s. case s of Single _ \<Rightarrow> 0 | Alternatives _ \<Rightarrow> 1)") auto

text \<open>The text a node shows.\<close>

fun textContent :: "ReactNode \<Rightarrow> string" where
  "textContent (Kbd k t) = t"
| "textContent (Text t) = t"
| "textContent (Nodes ns) = concat (map textContent ns)"

subsection \<open>The notification of a theme change\<close>

text \<open>An entry of \<^verbatim>\<open>data/themes.json\<close>; the list is a parameter.\<close>

record Theme =
  theme_id :: string
  theme_name :: string

record notification =
  message :: string
  timeout :: "nat option"
  overwritable :: bool

text \<open>
  The redux state as far as the handlers read and write it: \<^verbatim>\<open>state.theme.id\<close> and the
  notifications opened so far.
\<close>

record appState =
  current_theme_id :: string
  notifications :: "notification list"

definition THEME_NOTIFICATION_TIMEOUT :: nat where
  "THEME_NOTIFICATION_TIMEOUT = 1000"

text \<open>
  Modelled from the spec: the action \<^verbatim>\<open>openNotification\<close> of \<^verbatim>\<open>actions/app\<close> and its
  reducer are not among the sources covered here. The specification has the notification
  surface receive a request with a message, an optional timeout and the flag
  \<^verbatim>\<open>overwritable\<close>; dispatching the action adds the request to those emitted.
\<close>

definition openNotification :: "string \<Rightarrow> nat option \<Rightarrow> bool \<Rightarrow> appState \<Rightarrow> appState" where
  "openNotification msg t ow st =
     st\<lparr>notifications := notifications st @ [\<lparr>message = msg, timeout = t, overwritable = ow\<rparr>]\<rparr>"

text \<open>
  \<^verbatim>\<open>notifyThemeChange()\<close> reads \<^verbatim>\<open>store.getState().theme.id\<close> when it is called, looks
  the theme up with \<^verbatim>\<open>themes.find\<close>, and opens a notification if there is one.
\<close>

definition notifyThemeChange :: "Theme list \<Rightarrow> appState \<Rightarrow> appState" where
  "notifyThemeChange themes st =
     (let themeId = current_theme_id st;
          theme = find (\<lambda>t. theme_id t = themeId) themes
      in case theme of
           None \<Rightarrow> st
         | Some t \<Rightarrow> openNotification (''Theme switched to '' @ theme_name t)
                      (Some THEME_NOTIFICATION_TIMEOUT) True st)"

text \<open>
  The handlers of \<^verbatim>\<open>'z'\<close> and \<^verbatim>\<open>'c'\<close>: \<^verbatim>\<open>dispatch(cycleTheme(d)); notifyThemeChange();\<close>
  The reducer of \<^verbatim>\<open>cycleTheme\<close> (\<^verbatim>\<open>actions/theme\<close>) is not among the sources covered here and
  is a parameter: any function of the step and the state. A dispatch has changed the
  state when it returns.
\<close>

definition cycleThemeHandler ::
    "(int \<Rightarrow> appState \<Rightarrow> appState) \<Rightarrow> Theme list \<Rightarrow> int \<Rightarrow> appState \<Rightarrow> appState" where
  "cycleThemeHandler cycleTheme themes d st = notifyThemeChange themes (cycleTheme d st)"

section \<open>Properties of the theme picker\<close>

subsection \<open>Array lookups and the remainder\<close>

lemma indexOf_ge: "-1 \<le> indexOf xs x"
  by (induction xs) (auto simp: Let_def)


lemma indexOf_nth: "distinct xs \<Longrightarrow> i < length xs \<Longrightarrow> indexOf xs (xs ! i) = int i"
proof (induction xs arbitrary: i)
  case Nil
  then show ?case by simp
next
  case (Cons y ys)
  show ?case
  proof (cases i)
    case 0
    then show ?thesis by simp
  next
    case (Suc j)
    with Cons.prems have "ys ! j \<noteq> y" "indexOf ys (ys ! j) = int j"
      using Cons.IH[of j] by auto
    with Suc show ?thesis by (auto simp: Let_def)
  qed
qed

lemma js_rem_nonneg: "0 \<le> a \<Longrightarrow> 0 < b \<Longrightarrow> js_rem a b = Some (a mod b)"
  by (cases "a = 0") (simp_all add: js_rem_def sgn_if)

lemma js_rem_one: "js_rem a 1 = Some 0"
  by (simp add: js_rem_def)

lemma js_index_nth: "0 \<le> j \<Longrightarrow> j < int (length xs) \<Longrightarrow> js_index xs (Some j) = Some (xs ! nat j)"
  by (simp add: js_index_def)

subsection \<open>What a call writes\<close>

lemma attr_get_updateAppearance:
  "attr_get (updateAppearance property (Str s) p) (''data-'' @ property) = Str s"
  by (simp add: updateAppearance_def attr_get_def attr_set_def addClass_def Let_def)

lemma body_attr_updateAppearance:
  "body_attr (updateAppearance property (Str s) p) = (body_attr p)((''data-'' @ property) \<mapsto> s)"
  by (simp add: updateAppearance_def attr_get_def attr_set_def addClass_def Let_def)

lemma localforage_updateAppearance:
  "localforage (updateAppearance property v p) = (localforage p)(property \<mapsto> v)"
  by (simp add: updateAppearance_def attr_get_def attr_set_def addClass_def Let_def
           split: jsval.splits)

lemma body_attr_applyTheme:
  "body_attr (applyTheme (Str s) p) = (body_attr p)(''data-theme'' \<mapsto> s)"
  by (simp add: applyTheme_def body_attr_updateAppearance split: option.splits)

lemma attr_get_applyTheme: "attr_get (applyTheme (Str s) p) ''data-theme'' = Str s"
  by (simp add: attr_get_def body_attr_applyTheme)

lemma attr_get_pageWith: "attr_get (pageWith t) ''data-theme'' = Str t"
  by (simp add: pageWith_def attr_get_def)

subsection \<open>The index selectNextTheme computes\<close>

text \<open>
  With a catalog that is not empty the remainder is never \<^verbatim>\<open>NaN\<close> and never negative,
  so the call applies the entry at \<open>(index + d + length) mod length\<close> and throws nothing.
\<close>

lemma selectNextTheme_index:
  assumes "1 \<le> length themeOptions"
    and "d = (if direction = ''Left'' then -1 else 1)"
  shows "selectNextTheme themeOptions direction p =
     Inr (applyTheme (Str (opt_value (themeOptions ! nat
       ((indexOf (map Str (pluck_value themeOptions)) (attr_get p ''data-theme'')
          + d + int (length themeOptions))
        mod int (length themeOptions))))) p)"
proof -
  let ?n = "int (length themeOptions)"
  let ?i = "indexOf (map Str (pluck_value themeOptions)) (attr_get p ''data-theme'')"
  have i: "-1 \<le> ?i" by (rule indexOf_ge)
  have n: "0 < ?n" using assms(1) by (cases themeOptions) simp_all
  have d: "-1 \<le> d" using assms(2) by (simp split: if_splits)
  have m: "0 \<le> (?i + d + ?n) mod ?n" "(?i + d + ?n) mod ?n < ?n"
    using n by simp_all
  have r: "js_rem (?i + d + ?n) ?n = Some ((?i + d + ?n) mod ?n)"
  proof (cases "?n = 1")
    case True
    then show ?thesis by (simp add: js_rem_one)
  next
    case False
    with n have "2 \<le> ?n" by linarith
    with i d have "0 \<le> ?i + d + ?n" by linarith
    then show ?thesis using n by (rule js_rem_nonneg)
  qed
  have "selectNextTheme themeOptions direction p =
      (case js_index themeOptions (js_rem (?i + d + ?n) ?n) of
         None \<Rightarrow> Inl TypeError
       | Some opt \<Rightarrow> Inr (applyTheme (Str (opt_value opt)) p))"
    unfolding assms(2) by (simp add: selectNextTheme_def Let_def pluck_value_def)
  also have "js_index themeOptions (js_rem (?i + d + ?n) ?n)
      = Some (themeOptions ! nat ((?i + d + ?n) mod ?n))"
    unfolding r using m by (rule js_index_nth)
  finally show ?thesis by simp
qed

lemma selectNextTheme_at:
  assumes "distinct (pluck_value themeOptions)" and "i < length themeOptions"
    and "attr_get p ''data-theme'' = Str (pluck_value themeOptions ! i)"
    and "d = (if direction = ''Left'' then -1 else 1)"
  shows "selectNextTheme themeOptions direction p =
     Inr (applyTheme (Str (pluck_value themeOptions ! nat
       ((int i + d + int (length themeOptions)) mod int (length themeOptions)))) p)"
proof -
  let ?xs = "map Str (pluck_value themeOptions)"
  let ?n = "int (length themeOptions)"
  have len: "length ?xs = length themeOptions" by (simp add: pluck_value_def)
  have dx: "distinct ?xs" using assms(1) by (simp add: distinct_map inj_on_def)
  have "indexOf ?xs (?xs ! i) = int i"
    using dx assms(2) len by (intro indexOf_nth) simp_all
  moreover have "?xs ! i = Str (pluck_value themeOptions ! i)"
    using assms(2) by (simp add: pluck_value_def)
  ultimately have idx: "indexOf ?xs (attr_get p ''data-theme'') = int i"
    using assms(3) by simp
  have n: "1 \<le> length themeOptions" "0 < ?n"
    using assms(2) by (cases themeOptions; simp)+
  have "0 \<le> (int i + d + ?n) mod ?n" "(int i + d + ?n) mod ?n < ?n"
    using n(2) by simp_all
  then have "nat ((int i + d + ?n) mod ?n) < length themeOptions" by linarith
  then have "opt_value (themeOptions ! nat ((int i + d + ?n) mod ?n))
      = pluck_value themeOptions ! nat ((int i + d + ?n) mod ?n)"
    by (simp add: pluck_value_def)
  then show ?thesis
    unfolding selectNextTheme_index [OF n(1) assms(4)] idx by (simp only:)
qed

lemma forward_index:
  assumes "i < n" shows "nat ((int i + 1 + int n) mod int n) = (i + 1) mod n"
proof -
  have "int ((i + 1) mod n) = int (i + 1) mod int n" by (rule zmod_int)
  also have "int (i + 1) = int i + 1" by simp
  also have "(int i + 1) mod int n = (int i + 1 + int n) mod int n" by simp
  finally have "(int i + 1 + int n) mod int n = int ((i + 1) mod n)" by simp
  then show ?thesis by (simp only: nat_int)
qed

lemma backward_index:
  assumes "i < n" shows "nat ((int ((i + 1) mod n) + - 1 + int n) mod int n) = i"
proof (cases "i + 1 < n")
  case True
  then have "(i + 1) mod n = i + 1" by simp
  then have "int ((i + 1) mod n) + - 1 + int n = int i + int n" by simp
  moreover have "(int i + int n) mod int n = int i" using assms by simp
  ultimately show ?thesis by (simp only: nat_int)
next
  case False
  with assms have e: "i + 1 = n" by simp
  then have "(i + 1) mod n = 0" by simp
  then have "int ((i + 1) mod n) + - 1 + int n = int n - 1" by simp
  moreover have "(int n - 1) mod int n = int n - 1"
    using assms by (intro mod_pos_pos_trivial) simp_all
  moreover have "nat (int n - 1) = i" using e by simp
  ultimately show ?thesis by (simp only:)
qed

lemma selectNextTheme_eval:
  "selectNextTheme themeOptions direction p =
     (case js_index themeOptions
        (js_rem (indexOf (map Str (pluck_value themeOptions)) (attr_get p ''data-theme'')
                  + (if direction = ''Left'' then -1 else 1) + int (length themeOptions))
                (int (length themeOptions))) of
        None \<Rightarrow> Inl TypeError
      | Some opt \<Rightarrow> Inr (applyTheme (Str (opt_value opt)) p))"
  by (simp add: selectNextTheme_def Let_def pluck_value_def)

text \<open>
  The scenario of the specification: catalog \<open>[A, B, C]\<close>; forward from \<open>B\<close> gives \<open>C\<close>,
  forward from \<open>C\<close> wraps to \<open>A\<close>, backward from \<open>A\<close> wraps to \<open>C\<close>. Forward is any
  direction other than \<^verbatim>\<open>'Left'\<close>, backward is \<^verbatim>\<open>'Left'\<close>.
\<close>

lemma selectNextTheme_scenario:
  "themeAfter (selectNextTheme catalogABC ''Right'' (pageWith ''B'')) = Inr (Str ''C'')"
  "themeAfter (selectNextTheme catalogABC ''Right'' (pageWith ''C'')) = Inr (Str ''A'')"
  "themeAfter (selectNextTheme catalogABC ''Left'' (pageWith ''A'')) = Inr (Str ''C'')"
  unfolding selectNextTheme_eval attr_get_pageWith
  by (simp_all add: catalogABC_def pluck_value_def js_rem_def js_index_def themeAfter_def
        attr_get_applyTheme)

text \<open>
  Claim C4, as the specification states it, for every catalog of at least two themes:
  forward, then backward, returns the original theme. The code finds the current theme
  by value, with \<^verbatim>\<open>indexOf\<close>, which stops at the first entry that has it. In the
  catalog \<open>[A, A, B]\<close> with the current theme \<open>A\<close>, forward applies the entry at index 1,
  again \<open>A\<close>; backward then starts from index 0 once more and applies the entry at
  index 2: the theme is \<open>B\<close>, not \<open>A\<close>.
\<close>

theorem selectNextTheme_roundtrip_counterexample:
  "themeAfter (andThen (selectNextTheme catalogAAB ''Right'' (pageWith ''A''))
                       (selectNextTheme catalogAAB ''Left'')) = Inr (Str ''B'')"
proof -
  have 1: "selectNextTheme catalogAAB ''Right'' (pageWith ''A'')
             = Inr (applyTheme (Str ''A'') (pageWith ''A''))"
    unfolding selectNextTheme_eval attr_get_pageWith
    by (simp add: catalogAAB_def pluck_value_def js_rem_def js_index_def)
  have 2: "selectNextTheme catalogAAB ''Left'' (applyTheme (Str ''A'') (pageWith ''A''))
             = Inr (applyTheme (Str ''B'') (applyTheme (Str ''A'') (pageWith ''A'')))"
    unfolding selectNextTheme_eval attr_get_applyTheme
    by (simp add: catalogAAB_def pluck_value_def js_rem_def js_index_def)
  show ?thesis
    by (simp add: andThen_def themeAfter_def 1 2 attr_get_applyTheme)
qed

text \<open>
  Claim C4, amended: for every catalog of at least two themes whose identifiers are
  pairwise distinct, and the current theme at index \<open>i\<close> of the catalog, a step forward
  (any direction other than \<^verbatim>\<open>'Left'\<close>) throws nothing and applies the theme at index
  \<open>(i + 1) mod length\<close>, and a step backward (\<^verbatim>\<open>'Left'\<close>) from there throws nothing and
  returns the original theme.
\<close>

theorem selectNextTheme_roundtrip:
  assumes "distinct (pluck_value themeOptions)"
    and "2 \<le> length themeOptions"
    and "i < length themeOptions"
    and "attr_get p ''data-theme'' = Str (pluck_value themeOptions ! i)"
    and "direction \<noteq> ''Left''"
  shows "\<exists>p1 p2.
           selectNextTheme themeOptions direction p = Inr p1
         \<and> attr_get p1 ''data-theme''
             = Str (pluck_value themeOptions ! ((i + 1) mod length themeOptions))
         \<and> selectNextTheme themeOptions ''Left'' p1 = Inr p2
         \<and> attr_get p2 ''data-theme'' = attr_get p ''data-theme''"
proof -
  let ?n = "length themeOptions"
  let ?ts = "pluck_value themeOptions"
  let ?j = "(i + 1) mod ?n"
  let ?p1 = "applyTheme (Str (?ts ! ?j)) p"
  let ?p2 = "applyTheme (Str (?ts ! i)) ?p1"
  have j: "?j < ?n" using assms(3) by (cases themeOptions) simp_all
  have f: "1 = (if direction = ''Left'' then - 1 else (1::int))" using assms(5) by simp
  have b: "- 1 = (if ''Left'' = ''Left'' then - 1 else (1::int))" by simp
  have s1: "selectNextTheme themeOptions direction p = Inr ?p1"
    unfolding selectNextTheme_at [OF assms(1) assms(3) assms(4) f]
    by (simp only: forward_index [OF assms(3)])
  have a1: "attr_get ?p1 ''data-theme'' = Str (?ts ! ?j)" by (rule attr_get_applyTheme)
  have s2: "selectNextTheme themeOptions ''Left'' ?p1 = Inr ?p2"
    unfolding selectNextTheme_at [OF assms(1) j a1 b]
    by (simp only: backward_index [OF assms(3)])
  have a2: "attr_get ?p2 ''data-theme'' = attr_get p ''data-theme''"
    unfolding assms(4) by (rule attr_get_applyTheme)
  from s1 a1 s2 a2 show ?thesis by blast
qed

text \<open>
  The amended claim C4 at the catalog \<open>[A, B, C]\<close> with the current theme \<open>B\<close>: forward
  gives \<open>C\<close>, backward from there gives \<open>B\<close> again.
\<close>

theorem selectNextTheme_roundtrip_witness:
  "distinct (pluck_value catalogABC) \<and> 2 \<le> length catalogABC
   \<and> attr_get (pageWith ''B'') ''data-theme'' = Str (pluck_value catalogABC ! 1)
   \<and> (\<exists>p1 p2. selectNextTheme catalogABC ''Right'' (pageWith ''B'') = Inr p1
         \<and> attr_get p1 ''data-theme'' = Str ''C''
         \<and> selectNextTheme catalogABC ''Left'' p1 = Inr p2
         \<and> attr_get p2 ''data-theme'' = Str ''B'')"
proof -
  have d: "distinct (pluck_value catalogABC)" by (simp add: catalogABC_def pluck_value_def)
  have n: "2 \<le> length catalogABC" by (simp add: catalogABC_def)
  have i: "1 < length catalogABC" by (simp add: catalogABC_def)
  have a: "attr_get (pageWith ''B'') ''data-theme'' = Str (pluck_value catalogABC ! 1)"
    by (simp add: attr_get_pageWith catalogABC_def pluck_value_def)
  have r: "''Right'' \<noteq> ''Left''" by simp
  have v: "pluck_value catalogABC ! ((1 + 1) mod length catalogABC) = ''C''"
    by (simp add: catalogABC_def pluck_value_def)
  from selectNextTheme_roundtrip [OF d n i a r] d n a show ?thesis
    unfolding v attr_get_pageWith by blast
qed



subsection \<open>applyTheme\<close>



subsection \<open>toggleMode\<close>

lemma attr_get_toggleMode:
  "attr_get (toggleMode p) ''data-mode''
     = Str (if attr_get p ''data-mode'' = Str ''default'' then ''slate'' else ''default'')"
  by (simp add: toggleMode_def Let_def attr_get_updateAppearance [of "''mode''", simplified])

lemma localforage_toggleMode:
  "localforage (toggleMode p) ''mode'' = Some (attr_get (toggleMode p) ''data-mode'')"
  unfolding attr_get_toggleMode
  by (simp add: toggleMode_def Let_def localforage_updateAppearance)

text \<open>
  Claim C8: from a mode that is one of the two literals \<^verbatim>\<open>'default'\<close> and \<^verbatim>\<open>'slate'\<close>,
  \<^verbatim>\<open>toggleMode\<close> sets the other literal and stores it, and a second call sets the
  original mode again.
\<close>

theorem toggleMode_involution:
  assumes "attr_get p ''data-mode'' = Str ''default'' \<or> attr_get p ''data-mode'' = Str ''slate''"
  shows "attr_get (toggleMode (toggleMode p)) ''data-mode'' = attr_get p ''data-mode''
       \<and> attr_get (toggleMode p) ''data-mode'' \<noteq> attr_get p ''data-mode''
       \<and> (attr_get (toggleMode p) ''data-mode'' = Str ''default''
            \<or> attr_get (toggleMode p) ''data-mode'' = Str ''slate'')
       \<and> localforage (toggleMode p) ''mode'' = Some (attr_get (toggleMode p) ''data-mode'')"
  using assms by (auto simp: attr_get_toggleMode localforage_toggleMode)

text \<open>Claim C8 at a page in mode \<^verbatim>\<open>'slate'\<close>: one call gives \<^verbatim>\<open>'default'\<close>, two give \<^verbatim>\<open>'slate'\<close>.\<close>

theorem toggleMode_involution_witness:
  "attr_get (page0\<lparr>body_attr := [''data-mode'' \<mapsto> ''slate'']\<rparr>) ''data-mode'' = Str ''slate''
   \<and> attr_get (toggleMode (page0\<lparr>body_attr := [''data-mode'' \<mapsto> ''slate'']\<rparr>)) ''data-mode''
       = Str ''default''
   \<and> attr_get (toggleMode (toggleMode (page0\<lparr>body_attr := [''data-mode'' \<mapsto> ''slate'']\<rparr>)))
        ''data-mode'' = Str ''slate''"
proof -
  let ?p = "page0\<lparr>body_attr := [''data-mode'' \<mapsto> ''slate'']\<rparr>"
  have h: "attr_get ?p ''data-mode'' = Str ''slate''"
    by (simp add: attr_get_def page0_def)
  from toggleMode_involution [of ?p] h show ?thesis by auto
qed

subsection \<open>selectRandomTheme\<close>

text \<open>The loop leaves at the first draw that differs from the current theme.\<close>

lemma randomLoop_exit:
  "draw allThemes (rnd (k + j)) \<noteq> currentTheme
   \<Longrightarrow> (\<forall>i<j. draw allThemes (rnd (k + i)) = currentTheme)
   \<Longrightarrow> randomLoop allThemes currentTheme rnd k = Some (draw allThemes (rnd (k + j)))"
proof (induction j arbitrary: k)
  case 0
  then show ?case by (subst randomLoop.simps) simp
next
  case (Suc j)
  from Suc.prems(2) have here: "draw allThemes (rnd k) = currentTheme" by force
  have "randomLoop allThemes currentTheme rnd (Suc k)
      = Some (draw allThemes (rnd (Suc k + j)))"
  proof (rule Suc.IH)
    show "draw allThemes (rnd (Suc k + j)) \<noteq> currentTheme" using Suc.prems(1) by simp
    show "\<forall>i<j. draw allThemes (rnd (Suc k + i)) = currentTheme"
      using Suc.prems(2) by (metis Suc_less_eq add_Suc_shift)
  qed
  then show ?case using here by (subst randomLoop.simps) simp
qed






text \<open>
  A catalog of one theme, the current theme another one (or none): the first draw is
  index \<open>0\<close> and ends the loop.
\<close>

lemma selectRandomTheme_single_other:
  assumes "attr_get p ''data-theme'' \<noteq> Str t" and "rnd 0 = 0"
  shows "selectRandomTheme [\<lparr>opt_value = t\<rparr>] rnd p = Some (applyTheme (Str t) p)"
proof -
  have d: "draw (pluck_value [\<lparr>opt_value = t\<rparr>]) (rnd (0 + 0)) = Str t"
    using assms(2) by (simp add: draw_def pluck_value_def)
  have "randomLoop (pluck_value [\<lparr>opt_value = t\<rparr>]) (attr_get p ''data-theme'') rnd 0
          = Some (draw (pluck_value [\<lparr>opt_value = t\<rparr>]) (rnd (0 + 0)))"
    using assms(1) d by (intro randomLoop_exit) simp_all
  then show ?thesis
    unfolding d by (simp add: selectRandomTheme_def Let_def)
qed

section \<open>Properties of the keyboard shortcuts\<close>

subsection \<open>The Mousetrap table\<close>

lemma foldl_bind:
  "foldl (\<lambda>t k. t(k \<mapsto> a)) t ks k = (if k \<in> set ks then Some a else t k)"
  by (induction ks arbitrary: t) auto

lemma foldl_unbind: "foldl (\<lambda>t k. t(k := None)) t ks k = (if k \<in> set ks then None else t k)"
  by (induction ks arbitrary: t) auto

lemma Mousetrap_bind_apply:
  "Mousetrap_bind keys callback table k
     = (if k \<in> set (patterns keys) then Some callback else table k)"
  by (simp add: Mousetrap_bind_def foldl_bind)

lemma Mousetrap_unbind_apply:
  "Mousetrap_unbind keys table k = (if k \<in> set (patterns keys) then None else table k)"
  by (simp add: Mousetrap_unbind_def foldl_unbind)

lemma foldl_unbind_all:
  "foldl (\<lambda>t b. Mousetrap_unbind (kb_key b) t) table bs k
     = (if k \<in> set (registered bs) then None else table k)"
  by (induction bs arbitrary: table) (auto simp: Mousetrap_unbind_apply registered_def)

lemma shortcuts_bind:
  "shortcuts (bind k sec d a s)
     = shortcuts s @ [\<lparr>kb_key = k, kb_section = sec, kb_description = d\<rparr>]"
  by (simp add: bind_def)


subsection \<open>Teardown\<close>

lemma mousetrap_cleanup:
  "mousetrap (cleanup s) k
     = (if k \<in> set (registered (shortcuts s)) then None else mousetrap s k)"
  by (simp add: cleanup_def foldl_unbind_all)

lemma shortcuts_cleanup: "shortcuts (cleanup s) = []"
  by (simp add: cleanup_def)

text \<open>
  The cleanup removes every pattern that went through \<^verbatim>\<open>bind\<close>: a key event on it
  invokes nothing afterwards.
\<close>

lemma cleanup_removes_registered:
  "k \<in> set (registered (shortcuts s)) \<Longrightarrow> Mousetrap_trigger (mousetrap (cleanup s)) k = None"
  by (simp add: Mousetrap_trigger_def mousetrap_cleanup)

lemma registered_effect:
  "registered (shortcuts (effect helpShown colorScheme s))
     = registered (shortcuts s)
       @ [''y'', ''t'', ''m'', ''v'', ''s'', ''/'', ''?'', ''o'', ''d'', ''x'', ''z'', ''c'']"
  by (simp add: effect_def Let_def shortcuts_bind registered_def)

lemma mousetrap_effect_easterEgg:
  "mousetrap (effect helpShown colorScheme s) easterEgg = Some (HistoryPush ''/tetris'')"
  by (simp add: effect_def Let_def Mousetrap_bind_apply)

text \<open>
  Claim C1 has the teardown remove every pattern the component bound, chord sequences
  among them, so that no key event invokes a handler of the component afterwards. The
  ten-key sequence is bound by \<^verbatim>\<open>Mousetrap.bind\<close> itself, not by \<^verbatim>\<open>bind\<close>, so it is not
  among the patterns recorded in \<^verbatim>\<open>shortcuts.current\<close>, which are the ones the cleanup
  unbinds: after the effect and its cleanup, on any page and for any captured values,
  the sequence still invokes the handler that pushes \<^verbatim>\<open>/tetris\<close>.
\<close>

theorem cleanup_keeps_easterEgg:
  "Mousetrap_trigger
     (mousetrap (cleanup (effect helpShown colorScheme \<lparr>mousetrap = table, shortcuts = []\<rparr>)))
     easterEgg = Some (HistoryPush ''/tetris'')
   \<and> easterEgg \<notin> set (registered (shortcuts
         (effect helpShown colorScheme \<lparr>mousetrap = table, shortcuts = []\<rparr>)))"
proof -
  let ?s = "effect helpShown colorScheme \<lparr>mousetrap = table, shortcuts = []\<rparr>"
  have "registered (shortcuts ?s)
     = [''y'', ''t'', ''m'', ''v'', ''s'', ''/'', ''?'', ''o'', ''d'', ''x'', ''z'', ''c'']"
    by (simp add: registered_effect) (simp add: registered_def)
  then have n: "easterEgg \<notin> set (registered (shortcuts ?s))"
    by (simp add: easterEgg_def)
  then have "mousetrap (cleanup ?s) easterEgg = Some (HistoryPush ''/tetris'')"
    by (simp only: mousetrap_cleanup mousetrap_effect_easterEgg if_False)
  with n show ?thesis by (simp only: Mousetrap_trigger_def simp_thms)
qed

subsection \<open>Binding a pattern twice\<close>




subsection \<open>Grouping by section\<close>

lemma firstSeen_snoc:
  "firstSeen (ks @ [k]) = (if k \<in> set ks then firstSeen ks else firstSeen ks @ [k])"
  by (simp add: firstSeen_def)

lemma set_firstSeen: "set (firstSeen ks) = set ks"
  by (simp add: firstSeen_def)

lemma distinct_firstSeen: "distinct (firstSeen ks)"
  by (simp add: firstSeen_def)

lemma groupBy_add_map:
  "distinct ks \<Longrightarrow>
   groupBy_add (map (\<lambda>k. (k, g k)) ks) k v
     = (if k \<in> set ks then map (\<lambda>k'. (k', if k' = k then g k' @ [v] else g k')) ks
        else map (\<lambda>k. (k, g k)) ks @ [(k, [v])])"
  by (induction ks) auto

lemma groupBy_snoc:
  "groupBy (xs @ [x]) f = groupBy_add (groupBy xs f) (f x) x"
  by (simp add: groupBy_def)

lemma groupBy_eq:
  "groupBy xs f = map (\<lambda>k. (k, filter (\<lambda>x. f x = k) xs)) (firstSeen (map f xs))"
proof (induction xs rule: rev_induct)
  case Nil
  then show ?case by (simp add: groupBy_def firstSeen_def)
next
  case (snoc x xs)
  let ?ks = "firstSeen (map f xs)"
  have "groupBy (xs @ [x]) f
      = groupBy_add (map (\<lambda>k. (k, filter (\<lambda>x. f x = k) xs)) ?ks) (f x) x"
    by (simp only: groupBy_snoc snoc.IH)
  also have "\<dots> = (if f x \<in> set ?ks
        then map (\<lambda>k'. (k', if k' = f x then filter (\<lambda>x. f x = k') xs @ [x]
                             else filter (\<lambda>x. f x = k') xs)) ?ks
        else map (\<lambda>k. (k, filter (\<lambda>x. f x = k) xs)) ?ks @ [(f x, [x])])"
    by (rule groupBy_add_map) (rule distinct_firstSeen)
  also have "\<dots> = map (\<lambda>k. (k, filter (\<lambda>y. f y = k) (xs @ [x]))) (firstSeen (map f (xs @ [x])))"
  proof (cases "f x \<in> set (map f xs)")
    case True
    then show ?thesis
      by (simp add: firstSeen_snoc set_firstSeen)
  next
    case False
    then have "filter (\<lambda>y. f y = f x) xs = []"
      unfolding filter_empty_conv by (metis image_eqI list.set_map)
    moreover have "\<And>k. k \<in> set ?ks \<Longrightarrow> f x \<noteq> k"
      using False by (auto simp: set_firstSeen)
    ultimately show ?thesis using False
      by (simp add: firstSeen_snoc set_firstSeen)
  qed
  finally show ?case .
qed

text \<open>
  Claim C6: for every list of recorded bindings, the sections of the help dialog are the
  sections of the bindings in the order they are first seen, each once, and every
  section holds exactly the bindings of that section, in the order they have in the
  list. The grouping is a function of the list alone and returns a new value: the same
  list gives the same grouping, and the list is as it was.
\<close>

theorem sections_grouping:
  "sections s = map (\<lambda>sec. (sec, filter (\<lambda>b. kb_section b = sec) (shortcuts s)))
                    (rev (remdups (rev (map kb_section (shortcuts s)))))"
  unfolding sections_def groupBy_eq firstSeen_def ..

text \<open>The example of the specification: \<open>y\<close> and \<open>t\<close> under Navigation, then \<open>x\<close> under Appearance.\<close>

lemma sections_example:
  "sections \<lparr>mousetrap = table, shortcuts =
      [\<lparr>kb_key = Single ''y'', kb_section = Navigation, kb_description = ''Go to today''\<rparr>,
       \<lparr>kb_key = Single ''x'', kb_section = Appearance, kb_description = ''Toggle Night Mode''\<rparr>,
       \<lparr>kb_key = Single ''t'', kb_section = Navigation, kb_description = ''Go to timetable''\<rparr>]\<rparr>
   = [(Navigation,
        [\<lparr>kb_key = Single ''y'', kb_section = Navigation, kb_description = ''Go to today''\<rparr>,
         \<lparr>kb_key = Single ''t'', kb_section = Navigation, kb_description = ''Go to timetable''\<rparr>]),
      (Appearance,
        [\<lparr>kb_key = Single ''x'', kb_section = Appearance, kb_description = ''Toggle Night Mode''\<rparr>])]"
  by (simp add: sections_def groupBy_def)

subsection \<open>The notification names the theme of the current state\<close>

text \<open>
  Claim C7: the handler of a theme key first dispatches \<^verbatim>\<open>cycleTheme\<close> and then
  notifies. The notification it adds names the theme whose identifier the state holds
  after the dispatch, whatever the reducer does and whatever the state held before; with
  no such theme in the list nothing is added. The theme of the state is the one the
  dispatch left.
\<close>

theorem cycleThemeHandler_reads_current:
  "notifications (cycleThemeHandler cycleTheme themes d st)
     = notifications (cycleTheme d st)
       @ (case find (\<lambda>t. theme_id t = current_theme_id (cycleTheme d st)) themes of
            None \<Rightarrow> []
          | Some t \<Rightarrow> [\<lparr>message = ''Theme switched to '' @ theme_name t,
                         timeout = Some 1000, overwritable = True\<rparr>])
   \<and> current_theme_id (cycleThemeHandler cycleTheme themes d st)
       = current_theme_id (cycleTheme d st)"
  by (simp add: cycleThemeHandler_def notifyThemeChange_def openNotification_def Let_def
        THEME_NOTIFICATION_TIMEOUT_def split: option.splits)

text \<open>
  With the themes Alpha and Beta and a reducer that moves from Alpha to Beta, the
  notification says Beta, the new theme, not Alpha, the one the state held when the key
  was pressed.
\<close>

lemma cycleThemeHandler_example:
  "map message (notifications (cycleThemeHandler
       (\<lambda>d st. st\<lparr>current_theme_id := (if current_theme_id st = ''a'' then ''b'' else ''a'')\<rparr>)
       [\<lparr>theme_id = ''a'', theme_name = ''Alpha''\<rparr>, \<lparr>theme_id = ''b'', theme_name = ''Beta''\<rparr>]
       1 \<lparr>current_theme_id = ''a'', notifications = []\<rparr>))
   = [''Theme switched to Beta'']"
  by (simp add: cycleThemeHandler_def notifyThemeChange_def openNotification_def Let_def)

subsection \<open>Rendering\<close>

text \<open>The capital of a letter of \<^verbatim>\<open>[a-z]\<close> is the letter 32 codes below.\<close>

lemma of_char_toUpperCase:
  "of_char (toUpperCase c) = (if is_lower c then of_char c - 32 else (of_char c :: nat))"
  by (cases c) (auto simp: toUpperCase_def is_lower_def)

lemma replaceFirst_skip:
  assumes "\<forall>x \<in> set pre. \<not> is_lower x \<and> \<not> is_upper x"
    and "if pre = [] then \<not> afterWord else \<not> is_word (last pre)"
    and "is_lower c"
  shows "replaceFirst afterWord (pre @ c # rest) = pre @ toUpperCase c # rest"
  using assms
proof (induction pre arbitrary: afterWord)
  case Nil
  then show ?case by simp
next
  case (Cons x xs)
  have "replaceFirst (is_word x) (xs @ c # rest) = xs @ toUpperCase c # rest"
  proof (rule Cons.IH)
    show "\<forall>x\<in>set xs. \<not> is_lower x \<and> \<not> is_upper x" using Cons.prems(1) by simp
    show "if xs = [] then \<not> is_word x else \<not> is_word (last xs)"
      using Cons.prems(2) by (simp split: if_splits)
    show "is_lower c" by fact
  qed
  moreover have "\<not> is_lower x" using Cons.prems(1) by simp
  ultimately show ?case by simp
qed

text \<open>A pattern with no letter of \<^verbatim>\<open>[a-z]\<close>, such as \<^verbatim>\<open>'/'\<close> or \<^verbatim>\<open>'?'\<close>, is shown as it is.\<close>

lemma replaceFirst_none:
  "\<forall>x \<in> set s. \<not> is_lower x \<Longrightarrow> replaceFirst afterWord s = s"
  by (induction s arbitrary: afterWord) auto

lemma textContent_intersperse:
  "concat (map textContent (intersperse (map (\<lambda>k. renderShortcut (Single k)) ks) (Text d)))
     = concat (intersperse (map (\<lambda>k. textContent (renderShortcut (Single k))) ks) d)"
  by (induction ks rule: induct_list012) simp_all

text \<open>
  Claim C9: rendering is a function of the shortcut alone. A single pattern is shown
  with its first letter as a capital and nothing else changed: \<open>pre\<close> is what stands
  before the first letter (no letter, and not ending in a digit or an underscore, which
  the expression \<^verbatim>\<open>\b\<close> would take for the inside of a word) and \<open>c\<close> is that letter. A
  list of alternatives is shown as the renderings of its members with \<^verbatim>\<open>' or '\<close>
  between each two, so its text is the capitalized members joined with \<^verbatim>\<open>' or '\<close>.
\<close>

theorem renderShortcut_display:
  assumes "\<forall>x \<in> set pre. \<not> is_lower x \<and> \<not> is_upper x"
    and "pre = [] \<or> \<not> is_word (last pre)"
    and "is_lower c"
  shows "renderShortcut (Single (pre @ c # rest))
           = Kbd (pre @ c # rest) (pre @ toUpperCase c # rest)
       \<and> renderShortcut (Alternatives ks)
           = Nodes (intersperse (map (\<lambda>k. renderShortcut (Single k)) ks) (Text '' or ''))
       \<and> textContent (renderShortcut (Alternatives ks))
           = concat (intersperse (map (\<lambda>k. textContent (renderShortcut (Single k))) ks) '' or '')"
proof -
  have "if pre = [] then \<not> False else \<not> is_word (last pre)" using assms(2) by auto
  with assms(1) have "replaceFirst False (pre @ c # rest) = pre @ toUpperCase c # rest"
    using assms(3) by (rule replaceFirst_skip)
  then have single: "renderShortcut (Single (pre @ c # rest))
      = Kbd (pre @ c # rest) (pre @ toUpperCase c # rest)"
    by (simp add: capitalize_def)
  have nodes: "renderShortcut (Alternatives ks)
      = Nodes (intersperse (map (\<lambda>k. renderShortcut (Single k)) ks) (Text '' or ''))"
    by (rule renderShortcut.simps)
  have shown: "textContent (renderShortcut (Alternatives ks))
      = concat (intersperse (map (\<lambda>k. textContent (renderShortcut (Single k))) ks) '' or '')"
    by (simp only: renderShortcut.simps(2) textContent.simps(3) textContent_intersperse)
  from single nodes shown show ?thesis by (intro conjI)
qed

text \<open>
  Claim C9 at the pattern \<^verbatim>\<open>'ctrl+s'\<close>, shown as \<^verbatim>\<open>Ctrl+s\<close>, and at the alternatives
  \<^verbatim>\<open>['up', 'down']\<close>, shown as \<^verbatim>\<open>Up or Down\<close>.
\<close>

theorem renderShortcut_display_witness:
  "is_lower CHR ''c''
   \<and> renderShortcut (Single ''ctrl+s'') = Kbd ''ctrl+s'' ''Ctrl+s''
   \<and> textContent (renderShortcut (Alternatives [''up'', ''down''])) = ''Up or Down''"
proof -
  have 1: "\<forall>x \<in> set ''''. \<not> is_lower x \<and> \<not> is_upper x" by simp
  have 2: "'''' = [] \<or> \<not> is_word (last '''')" by simp
  have 3: "is_lower CHR ''c''" by (simp add: is_lower_def)
  have u: "toUpperCase CHR ''c'' = CHR ''C''" by (simp add: toUpperCase_def is_lower_def)
  have t: "capitalize ''up'' = ''Up''" "capitalize ''down'' = ''Down''"
    by (simp_all add: capitalize_def toUpperCase_def is_lower_def)
  from renderShortcut_display [OF 1 2 3, of "''trl+s''" "[''up'', ''down'']"] 3
  show ?thesis by (simp add: u t)
qed

text \<open>
  Patterns where the letter the expression finds is not the first character: \<^verbatim>\<open>'* a'\<close>
  is shown as \<^verbatim>\<open>* A\<close>, and \<^verbatim>\<open>'/'\<close> as it is.
\<close>

lemma renderShortcut_examples:
  "textContent (renderShortcut (Single ''* a'')) = ''* A''"
  "textContent (renderShortcut (Single ''/'')) = ''/''"
  by (simp_all add: capitalize_def toUpperCase_def is_lower_def is_word_def is_upper_def
        is_digit_def)

end
